theory Spec2Isabelle
  imports Main
begin

section \<open>Values, raw records and the request\<close>

text \<open>
  The catalogue resolvers of \<^verbatim>\<open>saleor/graphql/product/types/products.py\<close>. Raw records
  (Django model instances) are records holding the attributes the resolvers read; values of
  collaborators that the resolvers only pass along (money, stocks, pricing data) stay
  polymorphic or are small concrete types.
\<close>

datatype money = Money int string

record stock =
  stock_warehouse :: int
  stock_quantity :: int

text \<open>
  \<^verbatim>\<open>models.ProductVariant\<close>. \<open>digital_content\<close> and \<open>quantity_ordered\<close> are attributes that
  may be missing on the instance (a reverse one-to-one accessor, and an annotation attached by
  the sales report): \<open>None\<close> is a missing attribute, \<open>Some v\<close> an attribute holding \<open>v\<close>.
  \<open>quantity_ordered\<close> holds a nullable integer when it is there.
\<close>

record variant =
  variant_id :: int
  product_id :: int
  track_inventory :: bool
  cost_price :: "money option"
  price :: "money option"
  stocks :: "stock list"
  digital_content :: "string option"
  quantity_ordered :: "int option option"

text \<open>\<^verbatim>\<open>models.Product\<close>, \<^verbatim>\<open>models.Category\<close>, \<^verbatim>\<open>models.Collection\<close>,
  \<^verbatim>\<open>models.ProductChannelListing\<close>, \<^verbatim>\<open>models.Channel\<close> and a discount rule.\<close>

record product =
  product_pk :: int
  category_id :: "int option"

record category =
  category_pk :: int
  category_slug :: string

record collection =
  collection_pk :: int

record channel_listing =
  listing_product_id :: int
  listing_channel_slug :: string

record channel =
  slug :: string

record discount =
  discount_pk :: int

text \<open>
  \<^verbatim>\<open>ChannelContext\<close>: a raw record together with the slug of the requesting channel, which
  may be missing.
\<close>

record 'n ChannelContext =
  node :: 'n
  channel_slug :: "string option"

text \<open>\<^verbatim>\<open>ChannelQsContext\<close>: a query set (the rows it yields) and the channel slug.\<close>

record 'n ChannelQsContext =
  qs :: "'n list"
  qs_channel_slug :: string

datatype permission = MANAGE_PRODUCTS | OTHER_PERMISSION string

datatype error = AuthorizationError permission | ConfigurationError

section \<open>Batch loaders and deferred values\<close>

text \<open>One constructor for each data loader class the resolvers use, holding the key.\<close>

datatype load_key =
    AvailableQuantityByProductVariantIdAndCountryCodeLoader int "string option"
  | ProductByIdLoader int
  | ProductChannelListingByProductIdAndChanneSlugLoader int string
  | ProductChannelListingByProductIdLoader int
  | CollectionsByProductIdLoader int
  | ProductVariantsByProductIdLoader int
  | DiscountsByDateTimeLoader int

text \<open>
  The request context \<^verbatim>\<open>info.context\<close>. The data loaders of a request live on the context;
  \<open>dataloaders\<close> is the list of the keys whose load has been requested so far, oldest first.
  \<open>user_permissions\<close> is the capability set of the requester.
\<close>

record request_context =
  user_permissions :: "permission list"
  country :: string
  currency :: string
  request_time :: int
  plugins :: nat
  dataloaders :: "load_key list"

record ResolveInfo =
  info_context :: request_context

text \<open>
  A deferred value: already there, or waiting for the answer to one key of a loader and
  going on with the continuation. The continuation of each loader takes what that loader
  yields.
\<close>

datatype 'a deferred =
    Resolved 'a
  | AwaitAvailableQuantity int "string option" "int \<Rightarrow> 'a deferred"
  | AwaitProduct int "product option \<Rightarrow> 'a deferred"
  | AwaitChannelListing int string "channel_listing option \<Rightarrow> 'a deferred"
  | AwaitChannelListings int "channel_listing list \<Rightarrow> 'a deferred"
  | AwaitCollections int "collection list \<Rightarrow> 'a deferred"
  | AwaitVariants int "variant list \<Rightarrow> 'a deferred"
  | AwaitDiscounts int "discount list \<Rightarrow> 'a deferred"

text \<open>
  \<^verbatim>\<open>promise.then(f)\<close>: run \<open>f\<close> on the value once it is there; a deferred value returned by
  \<open>f\<close> is flattened.
\<close>

primrec promise_then :: "'a deferred \<Rightarrow> ('a \<Rightarrow> 'b deferred) \<Rightarrow> 'b deferred" where
  "promise_then (Resolved v) f = f v"
| "promise_then (AwaitAvailableQuantity i c k) f =
     AwaitAvailableQuantity i c (\<lambda>x. promise_then (k x) f)"
| "promise_then (AwaitProduct i k) f = AwaitProduct i (\<lambda>x. promise_then (k x) f)"
| "promise_then (AwaitChannelListing i s k) f =
     AwaitChannelListing i s (\<lambda>x. promise_then (k x) f)"
| "promise_then (AwaitChannelListings i k) f =
     AwaitChannelListings i (\<lambda>x. promise_then (k x) f)"
| "promise_then (AwaitCollections i k) f = AwaitCollections i (\<lambda>x. promise_then (k x) f)"
| "promise_then (AwaitVariants i k) f = AwaitVariants i (\<lambda>x. promise_then (k x) f)"
| "promise_then (AwaitDiscounts t k) f = AwaitDiscounts t (\<lambda>x. promise_then (k x) f)"

text \<open>What the persistence, inventory and discount services answer to each loader key.\<close>

record backend =
  available_quantity_for :: "int \<Rightarrow> string option \<Rightarrow> int"
  product_by_id :: "int \<Rightarrow> product option"
  channel_listing_for :: "int \<Rightarrow> string \<Rightarrow> channel_listing option"
  channel_listings_of :: "int \<Rightarrow> channel_listing list"
  collections_of :: "int \<Rightarrow> collection list"
  variants_of :: "int \<Rightarrow> variant list"
  discounts_at :: "int \<Rightarrow> discount list"

text \<open>
  Settling a deferred value against the services: the keys it waited for, in the order in
  which their answers were consumed, and the value it resolves to after the last of them.
\<close>

primrec settle :: "backend \<Rightarrow> 'a deferred \<Rightarrow> load_key list \<times> 'a" where
  "settle b (Resolved v) = ([], v)"
| "settle b (AwaitAvailableQuantity i c k) =
     (case settle b (k (available_quantity_for b i c)) of
        (ks, v) \<Rightarrow> (AvailableQuantityByProductVariantIdAndCountryCodeLoader i c # ks, v))"
| "settle b (AwaitProduct i k) =
     (case settle b (k (product_by_id b i)) of (ks, v) \<Rightarrow> (ProductByIdLoader i # ks, v))"
| "settle b (AwaitChannelListing i s k) =
     (case settle b (k (channel_listing_for b i s)) of
        (ks, v) \<Rightarrow> (ProductChannelListingByProductIdAndChanneSlugLoader i s # ks, v))"
| "settle b (AwaitChannelListings i k) =
     (case settle b (k (channel_listings_of b i)) of
        (ks, v) \<Rightarrow> (ProductChannelListingByProductIdLoader i # ks, v))"
| "settle b (AwaitCollections i k) =
     (case settle b (k (collections_of b i)) of
        (ks, v) \<Rightarrow> (CollectionsByProductIdLoader i # ks, v))"
| "settle b (AwaitVariants i k) =
     (case settle b (k (variants_of b i)) of
        (ks, v) \<Rightarrow> (ProductVariantsByProductIdLoader i # ks, v))"
| "settle b (AwaitDiscounts t k) =
     (case settle b (k (discounts_at b t)) of (ks, v) \<Rightarrow> (DiscountsByDateTimeLoader t # ks, v))"

text \<open>
  \<^verbatim>\<open>Loader(info.context).load(key)\<close>: the key joins the loads requested on the context, and a
  deferred value waiting for its answer is returned.
\<close>

definition request_load :: "load_key \<Rightarrow> ResolveInfo \<Rightarrow> ResolveInfo" where
  "request_load key info =
     info\<lparr>info_context := (info_context info)
       \<lparr>dataloaders := dataloaders (info_context info) @ [key]\<rparr>\<rparr>"

definition load_available_quantity ::
  "ResolveInfo \<Rightarrow> int \<times> string option \<Rightarrow> int deferred \<times> ResolveInfo" where
  "load_available_quantity info key =
     (case key of (i, c) \<Rightarrow>
        (AwaitAvailableQuantity i c Resolved,
         request_load (AvailableQuantityByProductVariantIdAndCountryCodeLoader i c) info))"

definition load_product :: "ResolveInfo \<Rightarrow> int \<Rightarrow> product option deferred \<times> ResolveInfo" where
  "load_product info i = (AwaitProduct i Resolved, request_load (ProductByIdLoader i) info)"

definition load_channel_listing ::
  "ResolveInfo \<Rightarrow> int \<times> string \<Rightarrow> channel_listing option deferred \<times> ResolveInfo" where
  "load_channel_listing info key =
     (case key of (i, s) \<Rightarrow>
        (AwaitChannelListing i s Resolved,
         request_load (ProductChannelListingByProductIdAndChanneSlugLoader i s) info))"

definition load_channel_listings ::
  "ResolveInfo \<Rightarrow> int \<Rightarrow> channel_listing list deferred \<times> ResolveInfo" where
  "load_channel_listings info i =
     (AwaitChannelListings i Resolved,
      request_load (ProductChannelListingByProductIdLoader i) info)"

definition load_collections ::
  "ResolveInfo \<Rightarrow> int \<Rightarrow> collection list deferred \<times> ResolveInfo" where
  "load_collections info i =
     (AwaitCollections i Resolved, request_load (CollectionsByProductIdLoader i) info)"

definition load_variants :: "ResolveInfo \<Rightarrow> int \<Rightarrow> variant list deferred \<times> ResolveInfo" where
  "load_variants info i =
     (AwaitVariants i Resolved, request_load (ProductVariantsByProductIdLoader i) info)"

definition load_discounts :: "ResolveInfo \<Rightarrow> int \<Rightarrow> discount list deferred \<times> ResolveInfo" where
  "load_discounts info t =
     (AwaitDiscounts t Resolved, request_load (DiscountsByDateTimeLoader t) info)"

section \<open>Availability of a variant\<close>

text \<open>\<^verbatim>\<open>django.conf.settings\<close>, as far as the resolvers read it.\<close>

record settings =
  MAX_CHECKOUT_LINE_QUANTITY :: int

definition ProductVariant_resolve_quantity_available ::
  "settings \<Rightarrow> variant ChannelContext \<Rightarrow> ResolveInfo \<Rightarrow> string option
     \<Rightarrow> int deferred \<times> ResolveInfo" where
  "ProductVariant_resolve_quantity_available conf root info country_code =
     (if \<not> track_inventory (node root)
      then (Resolved (MAX_CHECKOUT_LINE_QUANTITY conf), info)
      else load_available_quantity info (variant_id (node root), country_code))"

definition ProductVariant_resolve_stock_quantity ::
  "settings \<Rightarrow> variant ChannelContext \<Rightarrow> ResolveInfo \<Rightarrow> int deferred \<times> ResolveInfo" where
  "ProductVariant_resolve_stock_quantity conf root info =
     (if \<not> track_inventory (node root)
      then (Resolved (MAX_CHECKOUT_LINE_QUANTITY conf), info)
      else load_available_quantity info
             (variant_id (node root), Some (country (info_context info))))"

definition is_variant_in_stock :: "int \<Rightarrow> bool" where
  "is_variant_in_stock available_quantity = (available_quantity > 0)"

definition ProductVariant_resolve_is_available ::
  "variant ChannelContext \<Rightarrow> ResolveInfo \<Rightarrow> bool deferred \<times> ResolveInfo" where
  "ProductVariant_resolve_is_available root info =
     (if \<not> track_inventory (node root) then (Resolved True, info)
      else (case load_available_quantity info
                   (variant_id (node root), Some (country (info_context info))) of
              (quantity, info') \<Rightarrow>
                (promise_then quantity (\<lambda>q. Resolved (is_variant_in_stock q)), info')))"

section \<open>The authorization gate\<close>

text \<open>
  Modelled from the spec: the decorator \<^verbatim>\<open>permission_required\<close> of
  \<^verbatim>\<open>saleor/graphql/decorators.py\<close>, which is not part of the sources at hand. The
  specification (Authorization Gate): it wraps a resolver; before invocation it checks
  whether the current requester holds the declared permission; if not, resolution fails with
  an authorization error naming the missing permission; if so, it delegates to the wrapped
  resolver transparently.
\<close>

definition permission_required ::
  "permission \<Rightarrow> ('r \<Rightarrow> ResolveInfo \<Rightarrow> 'a) \<Rightarrow> 'r \<Rightarrow> ResolveInfo \<Rightarrow> error + 'a" where
  "permission_required perm resolver root info =
     (if perm \<in> set (user_permissions (info_context info))
      then Inr (resolver root info)
      else Inl (AuthorizationError perm))"

section \<open>Fields of a variant restricted to staff\<close>

text \<open>
  The collaborators a resolver calls (\<^verbatim>\<open>get_margin_for_variant\<close>, the stock manager's
  \<^verbatim>\<open>for_country\<close> and \<^verbatim>\<open>annotate_available_quantity\<close>, ...) are its leading parameters,
  under their names in the source. \<^verbatim>\<open>if not country_code\<close> holds for a missing and for an
  empty code.
\<close>

definition ProductVariant_resolve_stocks ::
  "(string \<Rightarrow> stock list \<Rightarrow> stock list) \<Rightarrow> (stock list \<Rightarrow> 'a)
     \<Rightarrow> variant ChannelContext \<Rightarrow> ResolveInfo \<Rightarrow> string option \<Rightarrow> error + 'a" where
  "ProductVariant_resolve_stocks for_country annotate_available_quantity root info country_code =
     permission_required MANAGE_PRODUCTS
       (\<lambda>root info.
          case country_code of
            None \<Rightarrow> annotate_available_quantity (stocks (node root))
          | Some c \<Rightarrow>
              if c = [] then annotate_available_quantity (stocks (node root))
              else annotate_available_quantity (for_country c (stocks (node root))))
       root info"

text \<open>\<^verbatim>\<open>getattr(obj, name, default)\<close> on an attribute that may be missing.\<close>

definition getattr :: "'a option \<Rightarrow> 'a \<Rightarrow> 'a" where
  "getattr attribute default_value =
     (case attribute of None \<Rightarrow> default_value | Some v \<Rightarrow> v)"

definition ProductVariant_resolve_digital_content ::
  "variant ChannelContext \<Rightarrow> ResolveInfo \<Rightarrow> error + string option" where
  "ProductVariant_resolve_digital_content root info =
     permission_required MANAGE_PRODUCTS
       (\<lambda>root info. getattr (map_option Some (digital_content (node root))) None)
       root info"

definition ProductVariant_resolve_margin ::
  "(variant \<Rightarrow> 'a) \<Rightarrow> variant ChannelContext \<Rightarrow> ResolveInfo \<Rightarrow> error + 'a" where
  "ProductVariant_resolve_margin get_margin_for_variant root info =
     permission_required MANAGE_PRODUCTS
       (\<lambda>root info. get_margin_for_variant (node root)) root info"

definition ProductVariant_resolve_cost_price ::
  "variant ChannelContext \<Rightarrow> ResolveInfo \<Rightarrow> error + money option" where
  "ProductVariant_resolve_cost_price root info =
     permission_required MANAGE_PRODUCTS (\<lambda>root info. cost_price (node root)) root info"

definition ProductVariant_resolve_price ::
  "variant ChannelContext \<Rightarrow> ResolveInfo \<Rightarrow> error + money option" where
  "ProductVariant_resolve_price root info =
     permission_required MANAGE_PRODUCTS (\<lambda>root info. price (node root)) root info"

definition ProductVariant_resolve_quantity ::
  "(variant \<Rightarrow> string \<Rightarrow> 'a) \<Rightarrow> variant ChannelContext \<Rightarrow> ResolveInfo \<Rightarrow> error + 'a" where
  "ProductVariant_resolve_quantity get_available_quantity root info =
     permission_required MANAGE_PRODUCTS
       (\<lambda>root info. get_available_quantity (node root) (country (info_context info)))
       root info"

definition ProductVariant_resolve_quantity_ordered ::
  "variant ChannelContext \<Rightarrow> ResolveInfo \<Rightarrow> error + int option" where
  "ProductVariant_resolve_quantity_ordered root info =
     permission_required MANAGE_PRODUCTS
       (\<lambda>root info. getattr (quantity_ordered (node root)) None) root info"

definition ProductVariant_resolve_quantity_allocated ::
  "(variant \<Rightarrow> string \<Rightarrow> 'a) \<Rightarrow> variant ChannelContext \<Rightarrow> ResolveInfo \<Rightarrow> error + 'a" where
  "ProductVariant_resolve_quantity_allocated get_quantity_allocated root info =
     permission_required MANAGE_PRODUCTS
       (\<lambda>root info.
          let country = country (info_context info)
          in get_quantity_allocated (node root) country)
       root info"

definition ProductVariant_resolve_revenue ::
  "('p \<Rightarrow> 'd) \<Rightarrow> (variant \<Rightarrow> 'd \<Rightarrow> 'a) \<Rightarrow> variant ChannelContext \<Rightarrow> ResolveInfo \<Rightarrow> 'p
     \<Rightarrow> error + 'a" where
  "ProductVariant_resolve_revenue reporting_period_to_date calculate_revenue_for_variant
       root info period =
     permission_required MANAGE_PRODUCTS
       (\<lambda>root info.
          let start_date = reporting_period_to_date period
          in calculate_revenue_for_variant (node root) start_date)
       root info"

definition ProductVariant_resolve_private_meta ::
  "(variant \<Rightarrow> ResolveInfo \<Rightarrow> 'a) \<Rightarrow> variant ChannelContext \<Rightarrow> ResolveInfo \<Rightarrow> error + 'a" where
  "ProductVariant_resolve_private_meta resolve_private_meta root info =
     permission_required MANAGE_PRODUCTS
       (\<lambda>root info. resolve_private_meta (node root) info) root info"

section \<open>Fields of a product restricted to staff\<close>

datatype Margin = Margin int int

definition Product_resolve_purchase_cost ::
  "(product \<Rightarrow> 'c \<times> int \<times> int) \<Rightarrow> product ChannelContext \<Rightarrow> ResolveInfo \<Rightarrow> error + 'c" where
  "Product_resolve_purchase_cost get_product_costs_data root info =
     permission_required MANAGE_PRODUCTS
       (\<lambda>root info.
          case get_product_costs_data (node root) of (purchase_cost, _) \<Rightarrow> purchase_cost)
       root info"

definition Product_resolve_margin ::
  "(product \<Rightarrow> 'c \<times> int \<times> int) \<Rightarrow> product ChannelContext \<Rightarrow> ResolveInfo
     \<Rightarrow> error + Margin" where
  "Product_resolve_margin get_product_costs_data root info =
     permission_required MANAGE_PRODUCTS
       (\<lambda>root info.
          case get_product_costs_data (node root) of
            (_, margin) \<Rightarrow> Margin (fst margin) (snd margin))
       root info"

definition Product_resolve_channel_listing ::
  "product ChannelContext \<Rightarrow> ResolveInfo
     \<Rightarrow> error + channel_listing list deferred \<times> ResolveInfo" where
  "Product_resolve_channel_listing root info =
     permission_required MANAGE_PRODUCTS
       (\<lambda>root info. load_channel_listings info (product_pk (node root))) root info"

definition Product_resolve_private_meta ::
  "(product \<Rightarrow> ResolveInfo \<Rightarrow> 'a) \<Rightarrow> product ChannelContext \<Rightarrow> ResolveInfo \<Rightarrow> error + 'a" where
  "Product_resolve_private_meta resolve_private_meta root info =
     permission_required MANAGE_PRODUCTS
       (\<lambda>root info. resolve_private_meta (node root) info) root info"

section \<open>Pricing\<close>

text \<open>
  \<^verbatim>\<open>VariantPricingInfo(**asdict(availability))\<close> and its product counterpart: the fields of
  the availability computed by the pricing subsystem, as the object of the schema.
  \<^verbatim>\<open>if not root.channel_slug\<close> holds for a missing and for an empty slug.
\<close>

datatype 'a VariantPricingInfo = VariantPricingInfo 'a

datatype 'a ProductPricingInfo = ProductPricingInfo 'a

definition ProductVariant_resolve_pricing ::
  "(variant \<Rightarrow> product option \<Rightarrow> channel_listing option \<Rightarrow> collection list \<Rightarrow> discount list
       \<Rightarrow> string \<Rightarrow> string \<Rightarrow> nat \<Rightarrow> 'a)
     \<Rightarrow> variant ChannelContext \<Rightarrow> ResolveInfo
     \<Rightarrow> 'a VariantPricingInfo option deferred \<times> ResolveInfo" where
  "ProductVariant_resolve_pricing get_variant_availability root info =
     (case channel_slug root of
        None \<Rightarrow> (Resolved None, info)
      | Some channel \<Rightarrow>
          if channel = [] then (Resolved None, info)
          else
            let context = info_context info;
                (product, info1) = load_product info (product_id (node root));
                (channel_listing, info2) =
                  load_channel_listing info1 (product_id (node root), channel);
                (collections, info3) = load_collections info2 (product_id (node root));
                calculate_pricing_info = (\<lambda>discounts.
                  promise_then product (\<lambda>product.
                    promise_then channel_listing (\<lambda>channel_listing.
                      promise_then collections (\<lambda>collections.
                        Resolved (Some (VariantPricingInfo
                          (get_variant_availability (node root) product channel_listing
                             collections discounts (country context) (currency context)
                             (plugins context))))))));
                (discounts, info4) = load_discounts info3 (request_time (info_context info3))
            in (promise_then discounts calculate_pricing_info, info4))"

definition Product_resolve_pricing ::
  "(product \<Rightarrow> channel_listing option \<Rightarrow> variant list \<Rightarrow> collection list \<Rightarrow> discount list
       \<Rightarrow> string \<Rightarrow> string \<Rightarrow> nat \<Rightarrow> 'a)
     \<Rightarrow> product ChannelContext \<Rightarrow> ResolveInfo
     \<Rightarrow> 'a ProductPricingInfo option deferred \<times> ResolveInfo" where
  "Product_resolve_pricing get_product_availability root info =
     (case channel_slug root of
        None \<Rightarrow> (Resolved None, info)
      | Some channel \<Rightarrow>
          if channel = [] then (Resolved None, info)
          else
            let context = info_context info;
                (channel_listing, info1) =
                  load_channel_listing info (product_pk (node root), channel);
                (variants, info2) = load_variants info1 (product_pk (node root));
                (collections, info3) = load_collections info2 (product_pk (node root));
                calculate_pricing_info = (\<lambda>discounts.
                  promise_then channel_listing (\<lambda>channel_listing.
                    promise_then variants (\<lambda>variants.
                      promise_then collections (\<lambda>collections.
                        Resolved (Some (ProductPricingInfo
                          (get_product_availability (node root) channel_listing variants
                             collections discounts (country context) (currency context)
                             (plugins context))))))));
                (discounts, info4) = load_discounts info3 (request_time (info_context info3))
            in (promise_then discounts calculate_pricing_info, info4))"

section \<open>Availability of a product\<close>

text \<open>
  \<^verbatim>\<open>models.ProductChannelListing.objects.filter(product=..., channel__slug=...).exists()\<close>
  over the rows of the listing table.
\<close>

definition listing_exists :: "channel_listing list \<Rightarrow> int \<Rightarrow> string \<Rightarrow> bool" where
  "listing_exists listings pk channel =
     list_ex (\<lambda>l. listing_product_id l = pk \<and> listing_channel_slug l = channel) listings"

definition Product_resolve_is_available ::
  "(product \<Rightarrow> string \<Rightarrow> bool) \<Rightarrow> channel_listing list \<Rightarrow> product ChannelContext
     \<Rightarrow> ResolveInfo \<Rightarrow> bool option" where
  "Product_resolve_is_available is_product_in_stock listings root info =
     (case channel_slug root of
        None \<Rightarrow> None
      | Some channel \<Rightarrow>
          if channel = [] then None
          else
            let country = country (info_context info);
                in_stock = is_product_in_stock (node root) country;
                is_visible = listing_exists listings (product_pk (node root)) channel
            in Some (is_visible \<and> in_stock))"

section \<open>Entities wrapped in a channel context\<close>


text \<open>
  \<^verbatim>\<open>ChannelContextType.resolve_id\<close>; \<open>pk\<close> reads the primary key of the wrapped record
  (\<open>variant_id\<close> for a variant, \<open>product_pk\<close> for a product).
\<close>

definition resolve_id :: "('n \<Rightarrow> int) \<Rightarrow> 'n ChannelContext \<Rightarrow> ResolveInfo \<Rightarrow> int" where
  "resolve_id pk root info = pk (node root)"

text \<open>
  Field-name lookup on a record given by its attributes: the value of the attribute of that
  name, the default value when there is none.
\<close>

datatype pyval = PyNone | PyInt int | PyBool bool | PyStr string



section \<open>Products of a category\<close>

text \<open>
  Modelled from the spec: \<^verbatim>\<open>get_default_channel_or_graphql_error\<close> of
  \<^verbatim>\<open>saleor/graphql/channel/utils.py\<close>, which is not part of the sources at hand. The
  specification: the default channel is resolved by an explicit lookup that fails loudly if
  no default channel is configured (a configuration error). Its argument is the configured
  default channel, if any.
\<close>

definition get_default_channel_or_graphql_error :: "channel option \<Rightarrow> error + channel" where
  "get_default_channel_or_graphql_error configured =
     (case configured of None \<Rightarrow> Inl ConfigurationError | Some c \<Rightarrow> Inr c)"

text \<open>
  \<^verbatim>\<open>Category.resolve_products\<close>. \<open>get_descendants\<close> is the tree method of the category
  model, \<open>default_channel\<close> the outcome of the default channel lookup, \<open>published\<close> the rows of
  \<^verbatim>\<open>models.Product.objects.published(channel)\<close>. \<^verbatim>\<open>filter(category__in=tree)\<close> keeps the
  rows whose category is one of the tree, \<^verbatim>\<open>distinct()\<close> drops repeated rows.
\<close>

definition Category_resolve_products ::
  "(category \<Rightarrow> bool \<Rightarrow> category list) \<Rightarrow> (error + channel) \<Rightarrow> (string \<Rightarrow> product list)
     \<Rightarrow> category \<Rightarrow> ResolveInfo \<Rightarrow> string option \<Rightarrow> error + product ChannelQsContext" where
  "Category_resolve_products get_descendants default_channel published root info channel =
     (let tree = get_descendants root True
      in case (case channel of
                 None \<Rightarrow> (case default_channel of Inl e \<Rightarrow> Inl e | Inr c \<Rightarrow> Inr (slug c))
               | Some given \<Rightarrow> Inr given) of
           Inl e \<Rightarrow> Inl e
         | Inr channel \<Rightarrow>
             let rows = published channel;
                 rows = remdups (filter (\<lambda>p. case category_id p of
                                               None \<Rightarrow> False
                                             | Some c \<Rightarrow> c \<in> set (map category_pk tree)) rows)
             in Inr \<lparr>qs = rows, qs_channel_slug = channel\<rparr>)"

section \<open>Product images\<close>

record image_file =
  url :: string

record product_image =
  image :: image_file

text \<open>
  \<^verbatim>\<open>ProductImage.resolve_url\<close>. \<^verbatim>\<open>if size\<close> holds for a size that is given and not zero.
  \<open>get_thumbnail\<close> is the thumbnail helper, \<open>build_absolute_uri\<close> the method of the request.
\<close>

definition ProductImage_resolve_url ::
  "(image_file \<Rightarrow> int \<Rightarrow> string \<Rightarrow> string) \<Rightarrow> (request_context \<Rightarrow> string \<Rightarrow> string)
     \<Rightarrow> product_image \<Rightarrow> ResolveInfo \<Rightarrow> int option \<Rightarrow> string" where
  "ProductImage_resolve_url get_thumbnail build_absolute_uri root info size_arg =
     (let the_url =
        (case size_arg of
           None \<Rightarrow> url (image root)
         | Some n \<Rightarrow> if n \<noteq> 0 then get_thumbnail (image root) n ''thumbnail''
                     else url (image root))
      in build_absolute_uri (info_context info) the_url)"

section \<open>Example data\<close>

text \<open>
  A request of a customer and one of a member of staff, a variant of product 3, the
  answers of the services, a small category tree and a listing table.
\<close>

definition example_context :: request_context where
  "example_context =
     \<lparr>user_permissions = [], country = ''PL'', currency = ''PLN'', request_time = 1600000000,
      plugins = 0, dataloaders = []\<rparr>"

definition customer_info :: ResolveInfo where
  "customer_info = \<lparr>info_context = example_context\<rparr>"

definition staff_info :: ResolveInfo where
  "staff_info =
     \<lparr>info_context = example_context\<lparr>user_permissions := [MANAGE_PRODUCTS]\<rparr>\<rparr>"

definition example_variant :: variant where
  "example_variant =
     \<lparr>variant_id = 7, product_id = 3, track_inventory = True,
      cost_price = Some (Money 400 ''PLN''), price = Some (Money 1000 ''PLN''),
      stocks = [\<lparr>stock_warehouse = 1, stock_quantity = 5\<rparr>],
      digital_content = None, quantity_ordered = None\<rparr>"

definition example_settings :: settings where
  "example_settings = \<lparr>MAX_CHECKOUT_LINE_QUANTITY = 50\<rparr>"

definition example_backend :: backend where
  "example_backend =
     \<lparr>available_quantity_for = (\<lambda>i c. if i = 7 then 5 else 0),
      product_by_id = (\<lambda>i. if i = 3 then Some \<lparr>product_pk = 3, category_id = Some 11\<rparr> else None),
      channel_listing_for = (\<lambda>i s. if i = 3 \<and> s = ''default-channel''
         then Some \<lparr>listing_product_id = 3, listing_channel_slug = ''default-channel''\<rparr> else None),
      channel_listings_of = (\<lambda>i. []),
      collections_of = (\<lambda>i. [\<lparr>collection_pk = 21\<rparr>]),
      variants_of = (\<lambda>i. if i = 3 then [example_variant] else []),
      discounts_at = (\<lambda>t. [\<lparr>discount_pk = 31\<rparr>])\<rparr>"

definition example_product :: product where
  "example_product = \<lparr>product_pk = 3, category_id = Some 12\<rparr>"

definition example_variant_availability ::
  "variant \<Rightarrow> product option \<Rightarrow> channel_listing option \<Rightarrow> collection list \<Rightarrow> discount list
     \<Rightarrow> string \<Rightarrow> string \<Rightarrow> nat \<Rightarrow> int \<times> nat \<times> nat \<times> string" where
  "example_variant_availability v p l cs ds co cu pl =
     (variant_id v, length cs, length ds, cu)"

definition example_product_availability ::
  "product \<Rightarrow> channel_listing option \<Rightarrow> variant list \<Rightarrow> collection list \<Rightarrow> discount list
     \<Rightarrow> string \<Rightarrow> string \<Rightarrow> nat \<Rightarrow> int \<times> nat \<times> nat \<times> string" where
  "example_product_availability p l vs cs ds co cu pl =
     (product_pk p, length vs, length ds, cu)"

definition example_variant_root :: "variant ChannelContext" where
  "example_variant_root = \<lparr>node = example_variant, channel_slug = Some ''default-channel''\<rparr>"

definition example_product_root :: "product ChannelContext" where
  "example_product_root = \<lparr>node = example_product, channel_slug = Some ''default-channel''\<rparr>"

definition example_costs :: "product \<Rightarrow> money \<times> int \<times> int" where
  "example_costs p = (Money 400 ''PLN'', 10, 60)"

definition example_listings :: "channel_listing list" where
  "example_listings =
     [\<lparr>listing_product_id = 3, listing_channel_slug = ''default-channel''\<rparr>,
      \<lparr>listing_product_id = 3, listing_channel_slug = []\<rparr>]"

definition always_in_stock :: "product \<Rightarrow> string \<Rightarrow> bool" where
  "always_in_stock p c = True"

definition example_record :: "(string \<times> pyval) list" where
  "example_record = [(''name'', PyStr ''shirt''), (''sku'', PyStr ''SH-1'')]"

definition apparel :: category where
  "apparel = \<lparr>category_pk = 11, category_slug = ''apparel''\<rparr>"

definition shoes :: category where
  "shoes = \<lparr>category_pk = 12, category_slug = ''shoes''\<rparr>"

definition example_descendants :: "category \<Rightarrow> bool \<Rightarrow> category list" where
  "example_descendants c include_self =
     (if category_pk c = 11 then (if include_self then [apparel, shoes] else [shoes])
      else if include_self then [c] else [])"

definition example_published :: "string \<Rightarrow> product list" where
  "example_published s =
     (if s = ''default-channel''
      then [example_product, \<lparr>product_pk = 4, category_id = Some 99\<rparr>, example_product]
      else [])"

definition example_thumbnail :: "image_file \<Rightarrow> int \<Rightarrow> string \<Rightarrow> string" where
  "example_thumbnail f n m =
     (if n = 200 then url f @ ''?size=200'' else url f @ ''?size=255'')"

definition example_absolute_uri :: "request_context \<Rightarrow> string \<Rightarrow> string" where
  "example_absolute_uri c u = ''https://shop.example'' @ u"

lemmas example_defs =
  example_context_def customer_info_def staff_info_def example_variant_def
  example_settings_def example_backend_def example_product_def
  example_variant_availability_def example_product_availability_def
  example_variant_root_def example_product_root_def example_costs_def example_listings_def
  always_in_stock_def example_record_def apparel_def shoes_def example_descendants_def
  example_published_def example_thumbnail_def example_absolute_uri_def

lemmas gated_resolver_defs =
  ProductVariant_resolve_stocks_def ProductVariant_resolve_digital_content_def
  ProductVariant_resolve_margin_def ProductVariant_resolve_cost_price_def
  ProductVariant_resolve_price_def ProductVariant_resolve_quantity_def
  ProductVariant_resolve_quantity_ordered_def ProductVariant_resolve_quantity_allocated_def
  ProductVariant_resolve_revenue_def ProductVariant_resolve_private_meta_def
  Product_resolve_purchase_cost_def Product_resolve_margin_def
  Product_resolve_channel_listing_def Product_resolve_private_meta_def

section \<open>Laws of deferred values\<close>

text \<open>
  A continuation chained with \<open>promise_then\<close> runs after the value it waits for: settling the
  chain consumes the keys of the first value, then those of the continuation applied to it.
\<close>

lemma settle_promise_then:
  "settle b (promise_then d f) =
     (fst (settle b d) @ fst (settle b (f (snd (settle b d)))),
      snd (settle b (f (snd (settle b d)))))"
  by (induction d) (simp_all add: split_beta)

lemma promise_then_assoc:
  "promise_then (promise_then d f) g = promise_then d (\<lambda>x. promise_then (f x) g)"
  by (induction d) simp_all

section \<open>The authorization gate on restricted fields\<close>

lemma permission_required_denied:
  "perm \<notin> set (user_permissions (info_context info)) \<Longrightarrow>
     permission_required perm resolver root info = Inl (AuthorizationError perm)"
  by (simp add: permission_required_def)

lemma permission_required_granted:
  "perm \<in> set (user_permissions (info_context info)) \<Longrightarrow>
     permission_required perm resolver root info = Inr (resolver root info)"
  by (simp add: permission_required_def)

text \<open>
  Claim C1. When the requester lacks the permission to manage products, each restricted
  field of a variant (margin, cost price, price, quantity, allocated quantity, ordered
  quantity, revenue, stocks, digital content, private metadata) and of a product (purchase
  cost, margin, channel listing, private metadata) fails with the authorization error naming
  that permission: the result is an error, neither null nor a value. When the requester holds
  the permission, each of them returns what the wrapped resolver computes, unchanged.
\<close>

theorem gated_fields_need_manage_products:
  "(MANAGE_PRODUCTS \<notin> set (user_permissions (info_context info)) \<longrightarrow>
      ProductVariant_resolve_margin get_margin_for_variant vroot info =
        Inl (AuthorizationError MANAGE_PRODUCTS)
    \<and> ProductVariant_resolve_cost_price vroot info = Inl (AuthorizationError MANAGE_PRODUCTS)
    \<and> ProductVariant_resolve_price vroot info = Inl (AuthorizationError MANAGE_PRODUCTS)
    \<and> ProductVariant_resolve_quantity get_available_quantity vroot info =
        Inl (AuthorizationError MANAGE_PRODUCTS)
    \<and> ProductVariant_resolve_quantity_allocated get_quantity_allocated vroot info =
        Inl (AuthorizationError MANAGE_PRODUCTS)
    \<and> ProductVariant_resolve_quantity_ordered vroot info =
        Inl (AuthorizationError MANAGE_PRODUCTS)
    \<and> ProductVariant_resolve_revenue reporting_period_to_date calculate_revenue_for_variant
        vroot info period = Inl (AuthorizationError MANAGE_PRODUCTS)
    \<and> ProductVariant_resolve_stocks for_country annotate_available_quantity vroot info
        country_code = Inl (AuthorizationError MANAGE_PRODUCTS)
    \<and> ProductVariant_resolve_digital_content vroot info =
        Inl (AuthorizationError MANAGE_PRODUCTS)
    \<and> ProductVariant_resolve_private_meta variant_private_meta vroot info =
        Inl (AuthorizationError MANAGE_PRODUCTS)
    \<and> Product_resolve_purchase_cost get_product_costs_data proot info =
        Inl (AuthorizationError MANAGE_PRODUCTS)
    \<and> Product_resolve_margin get_product_costs_data proot info =
        Inl (AuthorizationError MANAGE_PRODUCTS)
    \<and> Product_resolve_channel_listing proot info = Inl (AuthorizationError MANAGE_PRODUCTS)
    \<and> Product_resolve_private_meta product_private_meta proot info =
        Inl (AuthorizationError MANAGE_PRODUCTS))
   \<and> (MANAGE_PRODUCTS \<in> set (user_permissions (info_context info)) \<longrightarrow>
      ProductVariant_resolve_margin get_margin_for_variant vroot info =
        Inr (get_margin_for_variant (node vroot))
    \<and> ProductVariant_resolve_cost_price vroot info = Inr (cost_price (node vroot))
    \<and> ProductVariant_resolve_price vroot info = Inr (price (node vroot))
    \<and> ProductVariant_resolve_quantity get_available_quantity vroot info =
        Inr (get_available_quantity (node vroot) (country (info_context info)))
    \<and> ProductVariant_resolve_quantity_allocated get_quantity_allocated vroot info =
        Inr (get_quantity_allocated (node vroot) (country (info_context info)))
    \<and> ProductVariant_resolve_quantity_ordered vroot info =
        Inr (getattr (quantity_ordered (node vroot)) None)
    \<and> ProductVariant_resolve_revenue reporting_period_to_date calculate_revenue_for_variant
        vroot info period =
        Inr (calculate_revenue_for_variant (node vroot) (reporting_period_to_date period))
    \<and> ProductVariant_resolve_stocks for_country annotate_available_quantity vroot info
        country_code =
        Inr (annotate_available_quantity
               (case country_code of
                  None \<Rightarrow> stocks (node vroot)
                | Some c \<Rightarrow>
                    if c = [] then stocks (node vroot)
                    else for_country c (stocks (node vroot))))
    \<and> ProductVariant_resolve_digital_content vroot info = Inr (digital_content (node vroot))
    \<and> ProductVariant_resolve_private_meta variant_private_meta vroot info =
        Inr (variant_private_meta (node vroot) info)
    \<and> Product_resolve_purchase_cost get_product_costs_data proot info =
        Inr (fst (get_product_costs_data (node proot)))
    \<and> Product_resolve_margin get_product_costs_data proot info =
        Inr (Margin (fst (snd (get_product_costs_data (node proot))))
                    (snd (snd (get_product_costs_data (node proot)))))
    \<and> Product_resolve_channel_listing proot info =
        Inr (load_channel_listings info (product_pk (node proot)))
    \<and> Product_resolve_private_meta product_private_meta proot info =
        Inr (product_private_meta (node proot) info))"
proof (intro conjI impI)
  assume denied: "MANAGE_PRODUCTS \<notin> set (user_permissions (info_context info))"
  show "ProductVariant_resolve_margin get_margin_for_variant vroot info =
        Inl (AuthorizationError MANAGE_PRODUCTS)"
    unfolding ProductVariant_resolve_margin_def by (rule permission_required_denied [OF denied])
qed (simp_all add: gated_resolver_defs permission_required_def getattr_def
      split: option.splits prod.splits)

theorem gated_fields_witness:
  "MANAGE_PRODUCTS \<notin> set (user_permissions (info_context customer_info))
   \<and> ProductVariant_resolve_cost_price example_variant_root customer_info =
       Inl (AuthorizationError MANAGE_PRODUCTS)
   \<and> Product_resolve_margin example_costs example_product_root customer_info =
       Inl (AuthorizationError MANAGE_PRODUCTS)
   \<and> Product_resolve_channel_listing example_product_root customer_info =
       Inl (AuthorizationError MANAGE_PRODUCTS)
   \<and> MANAGE_PRODUCTS \<in> set (user_permissions (info_context staff_info))
   \<and> ProductVariant_resolve_cost_price example_variant_root staff_info =
       Inr (Some (Money 400 ''PLN''))
   \<and> Product_resolve_margin example_costs example_product_root staff_info =
       Inr (Margin 10 60)
   \<and> Product_resolve_purchase_cost example_costs example_product_root staff_info =
       Inr (Money 400 ''PLN'')"
  using gated_fields_need_manage_products
      [of customer_info "\<lambda>v. 0::int" example_variant_root "\<lambda>v c. 0::int" "\<lambda>v c. 0::int"
          "\<lambda>p::nat. 0::int" "\<lambda>v d. 0::int" "0" "\<lambda>c s. s" "\<lambda>s. s" "Some ''PL''"
          "\<lambda>v i. ''''" example_costs example_product_root "\<lambda>p i. ''''"]
    gated_fields_need_manage_products
      [of staff_info "\<lambda>v. 0::int" example_variant_root "\<lambda>v c. 0::int" "\<lambda>v c. 0::int"
          "\<lambda>p::nat. 0::int" "\<lambda>v d. 0::int" "0" "\<lambda>c s. s" "\<lambda>s. s" "Some ''PL''"
          "\<lambda>v i. ''''" example_costs example_product_root "\<lambda>p i. ''''"]
  by (auto simp add: example_defs)

section \<open>Quantities of a variant that does not track inventory\<close>

text \<open>
  Claim C2. For a variant that does not track inventory, the available quantity (for any
  country code argument) and the stock quantity are both the configured maximum
  \<open>MAX_CHECKOUT_LINE_QUANTITY\<close>: the value is there at once, no load is requested (the
  request is returned as it was), and the value does not depend on the stock rows or on what
  the inventory service would answer.
\<close>

theorem untracked_variant_quantity_is_sentinel:
  assumes "\<not> track_inventory (node root)"
  shows "ProductVariant_resolve_quantity_available conf root info country_code =
           (Resolved (MAX_CHECKOUT_LINE_QUANTITY conf), info)
       \<and> ProductVariant_resolve_stock_quantity conf root info =
           (Resolved (MAX_CHECKOUT_LINE_QUANTITY conf), info)
       \<and> settle b (fst (ProductVariant_resolve_quantity_available conf root info country_code)) =
           ([], MAX_CHECKOUT_LINE_QUANTITY conf)
       \<and> settle b (fst (ProductVariant_resolve_stock_quantity conf root info)) =
           ([], MAX_CHECKOUT_LINE_QUANTITY conf)"
  using assms
  by (simp add: ProductVariant_resolve_quantity_available_def
      ProductVariant_resolve_stock_quantity_def)

theorem untracked_variant_quantity_witness:
  "\<not> track_inventory (node \<lparr>node = example_variant\<lparr>track_inventory := False\<rparr>,
                              channel_slug = Some ''default-channel''\<rparr>)
   \<and> ProductVariant_resolve_quantity_available example_settings
        \<lparr>node = example_variant\<lparr>track_inventory := False\<rparr>,
         channel_slug = Some ''default-channel''\<rparr> customer_info (Some ''PL'') =
        (Resolved 50, customer_info)
   \<and> ProductVariant_resolve_stock_quantity example_settings
        \<lparr>node = example_variant\<lparr>track_inventory := False\<rparr>,
         channel_slug = Some ''default-channel''\<rparr> customer_info =
        (Resolved 50, customer_info)"
  using untracked_variant_quantity_is_sentinel
    [of "\<lparr>node = example_variant\<lparr>track_inventory := False\<rparr>,
          channel_slug = Some ''default-channel''\<rparr>"
        example_settings customer_info "Some ''PL''" example_backend]
  by (simp add: example_settings_def)

section \<open>Whether a variant is available\<close>

text \<open>
  Claim C3. For a variant that tracks inventory, \<open>isAvailable\<close> requests one load from the
  availability loader, keyed by the variant id and the country of the request, and resolves
  to true exactly when the loaded quantity is positive. For a variant that does not track
  inventory it is true at once, without a load.
\<close>

theorem variant_is_available_iff_positive_quantity:
  "(track_inventory (node root) \<longrightarrow>
      snd (ProductVariant_resolve_is_available root info) =
        request_load (AvailableQuantityByProductVariantIdAndCountryCodeLoader
                        (variant_id (node root)) (Some (country (info_context info)))) info
    \<and> settle b (fst (ProductVariant_resolve_is_available root info)) =
        ([AvailableQuantityByProductVariantIdAndCountryCodeLoader
            (variant_id (node root)) (Some (country (info_context info)))],
         0 < available_quantity_for b (variant_id (node root))
               (Some (country (info_context info)))))
   \<and> (\<not> track_inventory (node root) \<longrightarrow>
        ProductVariant_resolve_is_available root info = (Resolved True, info))"
  by (simp add: ProductVariant_resolve_is_available_def load_available_quantity_def
      is_variant_in_stock_def settle_promise_then)

theorem variant_is_available_witness:
  "track_inventory (node \<lparr>node = example_variant, channel_slug = None\<rparr>)
   \<and> settle example_backend
        (fst (ProductVariant_resolve_is_available
                \<lparr>node = example_variant, channel_slug = None\<rparr> customer_info)) =
        ([AvailableQuantityByProductVariantIdAndCountryCodeLoader 7 (Some ''PL'')], True)
   \<and> settle (example_backend\<lparr>available_quantity_for := (\<lambda>i c. 0)\<rparr>)
        (fst (ProductVariant_resolve_is_available
                \<lparr>node = example_variant, channel_slug = None\<rparr> customer_info)) =
        ([AvailableQuantityByProductVariantIdAndCountryCodeLoader 7 (Some ''PL'')], False)
   \<and> ProductVariant_resolve_is_available
        \<lparr>node = example_variant\<lparr>track_inventory := False\<rparr>, channel_slug = None\<rparr>
        customer_info = (Resolved True, customer_info)"
  using variant_is_available_iff_positive_quantity
      [of "\<lparr>node = example_variant, channel_slug = None\<rparr>" customer_info example_backend]
    variant_is_available_iff_positive_quantity
      [of "\<lparr>node = example_variant, channel_slug = None\<rparr>" customer_info
          "example_backend\<lparr>available_quantity_for := (\<lambda>i c. 0)\<rparr>"]
    variant_is_available_iff_positive_quantity
      [of "\<lparr>node = example_variant\<lparr>track_inventory := False\<rparr>, channel_slug = None\<rparr>"
          customer_info example_backend]
  by (simp add: example_variant_def example_backend_def customer_info_def example_context_def)

section \<open>Pricing needs a channel and all of its inputs\<close>

lemma variant_pricing_without_channel:
  "channel_slug root = None \<or> channel_slug root = Some [] \<Longrightarrow>
     ProductVariant_resolve_pricing gva root info = (Resolved None, info)"
  by (auto simp add: ProductVariant_resolve_pricing_def)

lemma product_pricing_without_channel:
  "channel_slug root = None \<or> channel_slug root = Some [] \<Longrightarrow>
     Product_resolve_pricing gpa root info = (Resolved None, info)"
  by (auto simp add: Product_resolve_pricing_def)

lemma variant_pricing_with_channel:
  assumes "channel_slug root = Some c" "c \<noteq> []"
  shows "dataloaders (info_context (snd (ProductVariant_resolve_pricing gva root info))) =
           dataloaders (info_context info) @
             [ProductByIdLoader (product_id (node root)),
              ProductChannelListingByProductIdAndChanneSlugLoader (product_id (node root)) c,
              CollectionsByProductIdLoader (product_id (node root)),
              DiscountsByDateTimeLoader (request_time (info_context info))]"
    and "settle b (fst (ProductVariant_resolve_pricing gva root info)) =
           ([DiscountsByDateTimeLoader (request_time (info_context info)),
             ProductByIdLoader (product_id (node root)),
             ProductChannelListingByProductIdAndChanneSlugLoader (product_id (node root)) c,
             CollectionsByProductIdLoader (product_id (node root))],
            Some (VariantPricingInfo
              (gva (node root) (product_by_id b (product_id (node root)))
                 (channel_listing_for b (product_id (node root)) c)
                 (collections_of b (product_id (node root)))
                 (discounts_at b (request_time (info_context info)))
                 (country (info_context info)) (currency (info_context info))
                 (plugins (info_context info)))))"
  using assms
  by (simp_all add: ProductVariant_resolve_pricing_def load_product_def load_channel_listing_def
      load_collections_def load_discounts_def request_load_def Let_def)

lemma product_pricing_with_channel:
  assumes "channel_slug root = Some c" "c \<noteq> []"
  shows "dataloaders (info_context (snd (Product_resolve_pricing gpa root info))) =
           dataloaders (info_context info) @
             [ProductChannelListingByProductIdAndChanneSlugLoader (product_pk (node root)) c,
              ProductVariantsByProductIdLoader (product_pk (node root)),
              CollectionsByProductIdLoader (product_pk (node root)),
              DiscountsByDateTimeLoader (request_time (info_context info))]"
    and "settle b (fst (Product_resolve_pricing gpa root info)) =
           ([DiscountsByDateTimeLoader (request_time (info_context info)),
             ProductChannelListingByProductIdAndChanneSlugLoader (product_pk (node root)) c,
             ProductVariantsByProductIdLoader (product_pk (node root)),
             CollectionsByProductIdLoader (product_pk (node root))],
            Some (ProductPricingInfo
              (gpa (node root)
                 (channel_listing_for b (product_pk (node root)) c)
                 (variants_of b (product_pk (node root)))
                 (collections_of b (product_pk (node root)))
                 (discounts_at b (request_time (info_context info)))
                 (country (info_context info)) (currency (info_context info))
                 (plugins (info_context info)))))"
  using assms
  by (simp_all add: Product_resolve_pricing_def load_variants_def load_channel_listing_def
      load_collections_def load_discounts_def request_load_def Let_def)

text \<open>
  Claim C4. Without a channel slug, the pricing of a variant and of a product is empty and no
  load is requested. With a channel slug, the pricing is either empty again (the slug is the
  empty string, which the resolver treats as missing) or it is computed only after all of its
  inputs have been loaded: the loads of the product (for a product: its variants), the
  channel listing, the collections and the discounts are requested, and the deferred result
  yields the pricing only after the answers to these four keys, computed from them.
\<close>

theorem pricing_needs_channel_and_loads:
  "(channel_slug vroot = None \<longrightarrow>
      ProductVariant_resolve_pricing get_variant_availability vroot info = (Resolved None, info))
   \<and> (channel_slug proot = None \<longrightarrow>
      Product_resolve_pricing get_product_availability proot info = (Resolved None, info))
   \<and> (channel_slug vroot = Some c \<longrightarrow>
        (if c = []
         then ProductVariant_resolve_pricing get_variant_availability vroot info =
                (Resolved None, info)
         else dataloaders (info_context
                (snd (ProductVariant_resolve_pricing get_variant_availability vroot info))) =
                dataloaders (info_context info) @
                  [ProductByIdLoader (product_id (node vroot)),
                   ProductChannelListingByProductIdAndChanneSlugLoader
                     (product_id (node vroot)) c,
                   CollectionsByProductIdLoader (product_id (node vroot)),
                   DiscountsByDateTimeLoader (request_time (info_context info))]
            \<and> settle b (fst (ProductVariant_resolve_pricing get_variant_availability
                               vroot info)) =
                ([DiscountsByDateTimeLoader (request_time (info_context info)),
                  ProductByIdLoader (product_id (node vroot)),
                  ProductChannelListingByProductIdAndChanneSlugLoader
                    (product_id (node vroot)) c,
                  CollectionsByProductIdLoader (product_id (node vroot))],
                 Some (VariantPricingInfo
                   (get_variant_availability (node vroot)
                      (product_by_id b (product_id (node vroot)))
                      (channel_listing_for b (product_id (node vroot)) c)
                      (collections_of b (product_id (node vroot)))
                      (discounts_at b (request_time (info_context info)))
                      (country (info_context info)) (currency (info_context info))
                      (plugins (info_context info)))))))
   \<and> (channel_slug proot = Some c \<longrightarrow>
        (if c = []
         then Product_resolve_pricing get_product_availability proot info =
                (Resolved None, info)
         else dataloaders (info_context
                (snd (Product_resolve_pricing get_product_availability proot info))) =
                dataloaders (info_context info) @
                  [ProductChannelListingByProductIdAndChanneSlugLoader
                     (product_pk (node proot)) c,
                   ProductVariantsByProductIdLoader (product_pk (node proot)),
                   CollectionsByProductIdLoader (product_pk (node proot)),
                   DiscountsByDateTimeLoader (request_time (info_context info))]
            \<and> settle b (fst (Product_resolve_pricing get_product_availability proot info)) =
                ([DiscountsByDateTimeLoader (request_time (info_context info)),
                  ProductChannelListingByProductIdAndChanneSlugLoader
                    (product_pk (node proot)) c,
                  ProductVariantsByProductIdLoader (product_pk (node proot)),
                  CollectionsByProductIdLoader (product_pk (node proot))],
                 Some (ProductPricingInfo
                   (get_product_availability (node proot)
                      (channel_listing_for b (product_pk (node proot)) c)
                      (variants_of b (product_pk (node proot)))
                      (collections_of b (product_pk (node proot)))
                      (discounts_at b (request_time (info_context info)))
                      (country (info_context info)) (currency (info_context info))
                      (plugins (info_context info)))))))"
  by (auto simp add: variant_pricing_without_channel product_pricing_without_channel
      variant_pricing_with_channel product_pricing_with_channel)

theorem pricing_witness:
  "ProductVariant_resolve_pricing example_variant_availability
     (example_variant_root\<lparr>channel_slug := None\<rparr>) customer_info = (Resolved None, customer_info)
   \<and> Product_resolve_pricing example_product_availability
     (example_product_root\<lparr>channel_slug := None\<rparr>) customer_info = (Resolved None, customer_info)
   \<and> settle example_backend
       (fst (ProductVariant_resolve_pricing example_variant_availability
               example_variant_root customer_info)) =
       ([DiscountsByDateTimeLoader 1600000000, ProductByIdLoader 3,
         ProductChannelListingByProductIdAndChanneSlugLoader 3 ''default-channel'',
         CollectionsByProductIdLoader 3],
        Some (VariantPricingInfo (7, 1, 1, ''PLN'')))
   \<and> settle example_backend
       (fst (Product_resolve_pricing example_product_availability
               example_product_root customer_info)) =
       ([DiscountsByDateTimeLoader 1600000000,
         ProductChannelListingByProductIdAndChanneSlugLoader 3 ''default-channel'',
         ProductVariantsByProductIdLoader 3, CollectionsByProductIdLoader 3],
        Some (ProductPricingInfo (3, 1, 1, ''PLN'')))"
  using pricing_needs_channel_and_loads
      [of "example_variant_root\<lparr>channel_slug := None\<rparr>" example_variant_availability
          customer_info "example_product_root\<lparr>channel_slug := None\<rparr>"
          example_product_availability "''default-channel''" example_backend]
    pricing_needs_channel_and_loads
      [of example_variant_root example_variant_availability
          customer_info example_product_root
          example_product_availability "''default-channel''" example_backend]
  by (simp add: example_defs)

section \<open>Default field resolution on a wrapped record\<close>



section \<open>The identifier of a wrapped record\<close>

text \<open>
  Claim C6. Wrapping a record in a channel context and resolving \<open>id\<close> yields the primary
  key of the wrapped record, for every record and every channel slug; the wrapper
  contributes nothing to it.
\<close>

theorem resolve_id_is_primary_key_of_record:
  "resolve_id pk \<lparr>node = n, channel_slug = s\<rparr> info = pk n
   \<and> resolve_id variant_id \<lparr>node = v, channel_slug = s\<rparr> info = variant_id v
   \<and> resolve_id product_pk \<lparr>node = p, channel_slug = s\<rparr> info = product_pk p"
  by (simp add: resolve_id_def)

theorem resolve_id_witness:
  "resolve_id variant_id example_variant_root customer_info = 7
   \<and> resolve_id product_pk example_product_root customer_info = 3"
  using resolve_id_is_primary_key_of_record
      [of variant_id example_variant "Some ''default-channel''" customer_info example_variant
          example_product]
  by (simp add: example_defs)

section \<open>Products of a category in the default channel\<close>

text \<open>
  Claim C7. With no channel argument, the products of a category are resolved in the default
  channel: the lookup's failure is the resolver's failure (a configuration error when no
  default channel is configured); otherwise the result carries the slug of the default
  channel and holds, without repetition, exactly the products published in that channel whose
  category is the category itself or one of its descendants. So a published product of a
  descendant category is among them.
\<close>

theorem category_products_in_default_channel:
  "Category_resolve_products get_descendants (get_default_channel_or_graphql_error None)
     published root info None = Inl ConfigurationError
   \<and> Category_resolve_products get_descendants (Inl e) published root info None = Inl e
   \<and> (\<exists>r. Category_resolve_products get_descendants
             (get_default_channel_or_graphql_error (Some ch)) published root info None = Inr r
          \<and> qs_channel_slug r = slug ch
          \<and> distinct (qs r)
          \<and> set (qs r) =
              {p \<in> set (published (slug ch)).
                 \<exists>c \<in> set (get_descendants root True). category_id p = Some (category_pk c)}
          \<and> (p \<in> set (published (slug ch)) \<and> c \<in> set (get_descendants root True)
                \<and> category_id p = Some (category_pk c) \<longrightarrow> p \<in> set (qs r)))"
  by (auto simp add: Category_resolve_products_def get_default_channel_or_graphql_error_def
      split: option.splits)

theorem category_products_witness:
  "shoes \<in> set (example_descendants apparel True)
   \<and> example_product \<in> set (example_published ''default-channel'')
   \<and> category_id example_product = Some (category_pk shoes)
   \<and> Category_resolve_products example_descendants
       (get_default_channel_or_graphql_error (Some \<lparr>slug = ''default-channel''\<rparr>))
       example_published apparel customer_info None =
       Inr \<lparr>qs = [example_product], qs_channel_slug = ''default-channel''\<rparr>
   \<and> Category_resolve_products example_descendants
       (get_default_channel_or_graphql_error None)
       example_published apparel customer_info None = Inl ConfigurationError"
  using category_products_in_default_channel
      [of example_descendants example_published apparel customer_info ConfigurationError
          "\<lparr>slug = ''default-channel''\<rparr>" example_product shoes]
  by (simp add: example_defs Category_resolve_products_def
      get_default_channel_or_graphql_error_def)

section \<open>The URL of a product image\<close>

text \<open>
  Claim C8. Without a size, the URL of a product image is the stored URL of the image; with
  a positive size it is the URL of the thumbnail rendered for that size. In both cases the
  request turns it into an absolute URL.
\<close>

theorem product_image_url:
  "ProductImage_resolve_url get_thumbnail build_absolute_uri root info None =
     build_absolute_uri (info_context info) (url (image root))
   \<and> (0 < n \<longrightarrow>
        ProductImage_resolve_url get_thumbnail build_absolute_uri root info (Some n) =
          build_absolute_uri (info_context info) (get_thumbnail (image root) n ''thumbnail''))"
  by (simp add: ProductImage_resolve_url_def)

theorem product_image_url_witness:
  "ProductImage_resolve_url example_thumbnail example_absolute_uri
     \<lparr>image = \<lparr>url = ''/media/shirt.png''\<rparr>\<rparr> customer_info None =
     ''https://shop.example/media/shirt.png''
   \<and> (0::int) < 200
   \<and> ProductImage_resolve_url example_thumbnail example_absolute_uri
     \<lparr>image = \<lparr>url = ''/media/shirt.png''\<rparr>\<rparr> customer_info (Some 200) =
     ''https://shop.example/media/shirt.png?size=200''"
  using product_image_url
      [of example_thumbnail example_absolute_uri "\<lparr>image = \<lparr>url = ''/media/shirt.png''\<rparr>\<rparr>"
          customer_info 200]
  by (simp add: example_defs)

section \<open>The ordered quantity is an optional annotation\<close>

text \<open>
  Claim C9. For a requester holding the permission to manage products, the ordered quantity
  of a variant is null when the annotation \<open>quantity_ordered\<close> is missing on the record, and
  the value of the annotation, unchanged, when it is there.
\<close>

theorem quantity_ordered_optional_annotation:
  assumes "MANAGE_PRODUCTS \<in> set (user_permissions (info_context info))"
  shows "(quantity_ordered (node root) = None \<longrightarrow>
            ProductVariant_resolve_quantity_ordered root info = Inr None)
       \<and> (quantity_ordered (node root) = Some v \<longrightarrow>
            ProductVariant_resolve_quantity_ordered root info = Inr v)"
  using assms
  by (simp add: ProductVariant_resolve_quantity_ordered_def permission_required_def getattr_def)

theorem quantity_ordered_witness:
  "MANAGE_PRODUCTS \<in> set (user_permissions (info_context staff_info))
   \<and> quantity_ordered (node example_variant_root) = None
   \<and> ProductVariant_resolve_quantity_ordered example_variant_root staff_info = Inr None
   \<and> ProductVariant_resolve_quantity_ordered
       (example_variant_root\<lparr>node := example_variant\<lparr>quantity_ordered := Some (Some 9)\<rparr>\<rparr>)
       staff_info = Inr (Some 9)"
  using quantity_ordered_optional_annotation [of staff_info example_variant_root "Some 9"]
    quantity_ordered_optional_annotation
      [of staff_info
          "example_variant_root\<lparr>node := example_variant\<lparr>quantity_ordered := Some (Some 9)\<rparr>\<rparr>"
          "Some 9"]
  by (simp add: example_defs)

section \<open>Whether a product is available\<close>

text \<open>
  Claim C10, as stated, fails for a channel slug that is present and empty: with a listing
  of the product for that slug and the product in stock, the claim makes \<open>isAvailable\<close>
  true, and the resolver returns null.
\<close>

theorem product_is_available_counterexample:
  "channel_slug (example_product_root\<lparr>channel_slug := Some []\<rparr>) = Some []
   \<and> listing_exists example_listings
        (product_pk (node (example_product_root\<lparr>channel_slug := Some []\<rparr>))) []
   \<and> always_in_stock (node (example_product_root\<lparr>channel_slug := Some []\<rparr>))
        (country (info_context customer_info))
   \<and> Product_resolve_is_available always_in_stock example_listings
        (example_product_root\<lparr>channel_slug := Some []\<rparr>) customer_info \<noteq> Some True
   \<and> Product_resolve_is_available always_in_stock example_listings
        (example_product_root\<lparr>channel_slug := Some []\<rparr>) customer_info = None"
  by (simp add: example_defs listing_exists_def Product_resolve_is_available_def)

text \<open>
  Claim C10, amended. For a product whose channel slug is missing or empty, \<open>isAvailable\<close>
  is null. For a product with a non-empty channel slug it is a boolean, true exactly when the
  product has a channel listing for that slug and is in stock for the country of the
  request.
\<close>

theorem product_is_available_by_channel:
  "((channel_slug root = None \<or> channel_slug root = Some []) \<longrightarrow>
      Product_resolve_is_available is_product_in_stock listings root info = None)
   \<and> (channel_slug root = Some c \<and> c \<noteq> [] \<longrightarrow>
        Product_resolve_is_available is_product_in_stock listings root info =
          Some (listing_exists listings (product_pk (node root)) c
                \<and> is_product_in_stock (node root) (country (info_context info)))
      \<and> (Product_resolve_is_available is_product_in_stock listings root info = Some True
           \<longleftrightarrow> listing_exists listings (product_pk (node root)) c
               \<and> is_product_in_stock (node root) (country (info_context info))))"
  by (auto simp add: Product_resolve_is_available_def)

theorem product_is_available_witness:
  "channel_slug example_product_root = Some ''default-channel''
   \<and> Product_resolve_is_available always_in_stock example_listings example_product_root
       customer_info = Some True
   \<and> Product_resolve_is_available always_in_stock [] example_product_root
       customer_info = Some False
   \<and> Product_resolve_is_available always_in_stock example_listings
       (example_product_root\<lparr>channel_slug := None\<rparr>) customer_info = None"
  using product_is_available_by_channel
      [of example_product_root always_in_stock example_listings customer_info
          "''default-channel''"]
    product_is_available_by_channel
      [of example_product_root always_in_stock "[]" customer_info "''default-channel''"]
    product_is_available_by_channel
      [of "example_product_root\<lparr>channel_slug := None\<rparr>" always_in_stock example_listings
          customer_info "''default-channel''"]
  by (simp add: example_defs listing_exists_def)

end
